theory Spec2Isabelle
  imports
    Main
    "HOL-Library.Word"
    "HOL-Library.Char_ord"
    "HOL-Library.List_Lexorder"
    "HOL-Library.AList"
    "HOL-Library.Multiset"
begin

unbundle bit_operations_syntax

section \<open>Bytes, strings and machine integers\<close>

text \<open>
  A Go \<open>string\<close> is a sequence of bytes and is modelled by \<^typ>\<open>string\<close> (a list of
  8-bit characters); \<open>sort.Strings\<close> and the operator \<open><\<close> on Go strings compare
  byte-wise, which is the lexicographic order on \<^typ>\<open>char list\<close>. A \<open>[]byte\<close> is a
  list of 8-bit words, \<open>int64\<close> and \<open>uint64\<close> are 64-bit words (addition wraps; an
  \<open>int64\<close> is read with \<^const>\<open>sint\<close>).
\<close>

type_synonym byte = "8 word"
type_synonym int64 = "64 word"
type_synonym uint64 = "64 word"

text \<open>The conversion \<open>[]byte(s)\<close> of a string.\<close>

definition bytes_of :: "string \<Rightarrow> byte list" where
  "bytes_of s = map of_char s"

datatype error =
    IOError string
  | FormatError string
  | InvalidByteError char
  | ErrLength
  | IndexOutOfRange
  | Wrapped string error

section \<open>encoding/hex\<close>

text \<open>
  \<open>hex.EncodeToString\<close> writes two digits of \<open>"0123456789abcdef"\<close> for each byte,
  the high nibble first.
\<close>

definition hextable :: string where
  "hextable = ''0123456789abcdef''"

definition EncodeToString :: "byte list \<Rightarrow> string" where
  "EncodeToString src =
     concat (map (\<lambda>v. [hextable ! unat (drop_bit 4 v), hextable ! unat (v AND 0x0f)]) src)"

text \<open>
  \<open>fromHexChar\<close>: the value of a hexadecimal digit, of either case; \<open>None\<close> for every
  other byte (the entries of \<open>reverseHexTable\<close> above \<open>0x0f\<close>).
\<close>

definition fromHexChar :: "char \<Rightarrow> byte option" where
  "fromHexChar c =
     (let n = (of_char c :: nat) in
      if 48 \<le> n \<and> n \<le> 57 then Some (of_nat (n - 48))
      else if 97 \<le> n \<and> n \<le> 102 then Some (of_nat (n - 97 + 10))
      else if 65 \<le> n \<and> n \<le> 70 then Some (of_nat (n - 65 + 10))
      else None)"

text \<open>
  \<open>hex.DecodeString\<close> returns the bytes decoded before the first error together with
  that error: an invalid digit, or \<open>ErrLength\<close> for a source of odd length (the invalid
  digit is looked for first).
\<close>

fun DecodeString :: "string \<Rightarrow> byte list \<times> error option" where
  "DecodeString [] = ([], None)"
| "DecodeString [p] =
     (case fromHexChar p of
        None \<Rightarrow> ([], Some (InvalidByteError p))
      | Some a \<Rightarrow> ([], Some ErrLength))"
| "DecodeString (p # q # rest) =
     (case fromHexChar p of
        None \<Rightarrow> ([], Some (InvalidByteError p))
      | Some a \<Rightarrow>
          (case fromHexChar q of
             None \<Rightarrow> ([], Some (InvalidByteError q))
           | Some b \<Rightarrow>
               (case DecodeString rest of
                  (bs, e) \<Rightarrow> ((push_bit 4 a OR b) # bs, e))))"

section \<open>internal/hash: \<open>XXHashFunc\<close>\<close>

text \<open>
  The 64-bit xxHash of the library \<open>github.com/cespare/xxhash/v2\<close> is not part of the
  repository. Every function that hashes takes it as the parameter \<open>sum64\<close>: the value
  of \<open>Sum64\<close> after the given bytes have been written to a fresh digest.
\<close>

type_synonym hasher = "byte list \<Rightarrow> uint64"

text \<open>\<open>binary.BigEndian.PutUint64\<close> into a buffer of eight bytes.\<close>

definition PutUint64 :: "uint64 \<Rightarrow> byte list" where
  "PutUint64 v =
     [ucast (drop_bit 56 v), ucast (drop_bit 48 v), ucast (drop_bit 40 v),
      ucast (drop_bit 32 v), ucast (drop_bit 24 v), ucast (drop_bit 16 v),
      ucast (drop_bit 8 v), ucast v]"

definition XXHashFunc :: "hasher \<Rightarrow> byte list \<Rightarrow> error + byte list" where
  "XXHashFunc sum64 data = Inr (PutUint64 (sum64 data))"

section \<open>path/filepath and strings (Unix)\<close>

definition HasPrefix :: "string \<Rightarrow> string \<Rightarrow> bool" where
  "HasPrefix s pre = (length pre \<le> length s \<and> take (length pre) s = pre)"

definition TrimPrefix :: "string \<Rightarrow> string \<Rightarrow> string" where
  "TrimPrefix s pre = (if HasPrefix s pre then drop (length pre) s else s)"

definition Separator :: char where
  "Separator = CHR ''/''"

text \<open>
  The loop of \<open>filepath.Clean\<close>: \<open>rest\<close> is the unread part of the path, \<open>out\<close> the
  buffer written so far and \<open>dotdot\<close> the index in the buffer below which a \<open>..\<close>
  element must not backtrack.
\<close>

definition backtrack :: "string \<Rightarrow> nat \<Rightarrow> string" where
  "backtrack out dotdot =
     take dotdot out @
     butlast (rev (dropWhile (\<lambda>c. c \<noteq> CHR ''/'') (rev (drop dotdot out))))"

function clean_loop :: "bool \<Rightarrow> string \<Rightarrow> string \<Rightarrow> nat \<Rightarrow> string" where
  "clean_loop rooted [] out dotdot = out"
| "clean_loop rooted (c # t) out dotdot =
     (if c = CHR ''/'' then clean_loop rooted t out dotdot
      else if c = CHR ''.'' \<and> (t = [] \<or> hd t = CHR ''/'') then clean_loop rooted t out dotdot
      else if c = CHR ''.'' \<and> t \<noteq> [] \<and> hd t = CHR ''.'' \<and>
              (tl t = [] \<or> hd (tl t) = CHR ''/'') then
        (if length out > dotdot then
           clean_loop rooted (tl t) (backtrack out dotdot) dotdot
         else if \<not> rooted then
           (let out' = (if length out > 0 then out @ ''/'' else out) @ ''..''
            in clean_loop rooted (tl t) out' (length out'))
         else clean_loop rooted (tl t) out dotdot)
      else
        (let out' = (if rooted \<and> length out \<noteq> 1 \<or> \<not> rooted \<and> length out \<noteq> 0
                     then out @ ''/'' else out)
         in clean_loop rooted (dropWhile (\<lambda>x. x \<noteq> CHR ''/'') (c # t))
              (out' @ takeWhile (\<lambda>x. x \<noteq> CHR ''/'') (c # t)) dotdot))"
  by pat_completeness auto
termination
  by (relation "measure (\<lambda>(rooted, rest, out, dotdot). length rest)")
     (auto simp: less_Suc_eq_le length_dropWhile_le)

definition Clean :: "string \<Rightarrow> string" where
  "Clean path =
     (if path = [] then ''.''
      else
        (let rooted = (hd path = CHR ''/'');
             out = (if rooted then clean_loop True (tl path) ''/'' 1
                    else clean_loop False path [] 0)
         in if length out = 0 then ''.'' else out))"

text \<open>\<open>filepath.Join\<close> of two elements: the first non-empty element starts the path.\<close>

definition Join :: "string \<Rightarrow> string \<Rightarrow> string" where
  "Join a b =
     (if a \<noteq> [] then Clean (a @ [Separator] @ b)
      else if b \<noteq> [] then Clean b
      else [])"

definition Base :: "string \<Rightarrow> string" where
  "Base path =
     (if path = [] then ''.''
      else
        (let stripped = rev (dropWhile (\<lambda>c. c = CHR ''/'') (rev path));
             element = rev (takeWhile (\<lambda>c. c \<noteq> CHR ''/'') (rev stripped))
         in if element = [] then [Separator] else element))"

section \<open>internal/tree: the data model\<close>

text \<open>
  A \<open>time.Time\<close> is a number of seconds since the Unix epoch and a nanosecond within
  the second (its location and monotonic reading play no role here). \<open>Unix\<close> reads the
  seconds; \<open>time.Unix(sec, 0)\<close> is \<open>time_Unix sec 0\<close>.
\<close>

record Time =
  Unix :: int64
  Nanosecond :: nat

definition time_Unix :: "int64 \<Rightarrow> nat \<Rightarrow> Time" where
  "time_Unix sec nsec = \<lparr>Unix = sec, Nanosecond = nsec\<rparr>"

record FileData =
  Hash :: string
  Size :: int64
  ModTime :: Time

text \<open>
  A \<open>*Node\<close> is a \<^typ>\<open>'a option\<close> (\<open>nil\<close> is \<open>None\<close>). Nodes are never mutated after
  they are built, so a node that two fields point to is the same value in both.
\<close>

datatype Node = Node
  (Node_Hash: string)
  (Left: "Node option")
  (Right: "Node option")
  (Path: string)
  (Node_Size: int64)
  (MTime: int64)

text \<open>
  A Go map is a list of entries with distinct keys; the order of the list is the order
  in which \<open>range\<close> happens to visit the entries. \<open>m[k]\<close> is \<^const>\<open>map_of\<close>,
  \<open>m[k] = v\<close> is \<^const>\<open>AList.update\<close>.
\<close>

type_synonym 'v gomap = "(string \<times> 'v) list"

record MerkleTree =
  Root :: "Node option"
  RootPath :: string
  TotalSize :: int64
  Files :: "FileData gomap"

definition zeroFileData :: FileData where
  "zeroFileData = \<lparr>Hash = [], Size = 0, ModTime = time_Unix 0 0\<rparr>"

text \<open>\<open>files[path]\<close>: the zero value for a missing key.\<close>

definition index_files :: "FileData gomap \<Rightarrow> string \<Rightarrow> FileData" where
  "index_files files path = (case map_of files path of Some d \<Rightarrow> d | None \<Rightarrow> zeroFileData)"

section \<open>internal/tree: \<open>Build\<close>\<close>

definition relativePath :: "string \<Rightarrow> string \<Rightarrow> string" where
  "relativePath cleanRoot path =
     (let cleanPath = Clean path in
      if HasPrefix cleanPath (cleanRoot @ [Separator])
      then TrimPrefix cleanPath (cleanRoot @ [Separator])
      else if cleanPath = cleanRoot then Base cleanPath
      else path)"

definition leafNode :: "FileData gomap \<Rightarrow> string \<Rightarrow> string \<Rightarrow> Node" where
  "leafNode files cleanRoot path =
     (let fileData = index_files files path
      in Node (Hash fileData) None None (relativePath cleanRoot path)
           (Size fileData) (Unix (ModTime fileData)))"

text \<open>The parent of a pair of nodes; the odd node out is paired with itself.\<close>

definition parentOf :: "hasher \<Rightarrow> Node \<Rightarrow> Node \<Rightarrow> error + Node" where
  "parentOf sum64 leftNode rightNode =
     (let leftHashBytes = fst (DecodeString (Node_Hash leftNode));
          rightHashBytes = fst (DecodeString (Node_Hash rightNode));
          combined = leftHashBytes @ rightHashBytes
      in case XXHashFunc sum64 combined of
           Inl err \<Rightarrow> Inl (Wrapped ''failed to hash parent node'' err)
         | Inr parentHash \<Rightarrow>
             Inr (Node (EncodeToString parentHash) (Some leftNode) (Some rightNode) [] 0 0))"

text \<open>The inner loop of \<open>Build\<close>: one pass over the level, two nodes at a time.\<close>

fun nextLevel :: "hasher \<Rightarrow> Node list \<Rightarrow> error + Node list" where
  "nextLevel sum64 [] = Inr []"
| "nextLevel sum64 [node] =
     (case parentOf sum64 node node of
        Inl err \<Rightarrow> Inl err
      | Inr parentNode \<Rightarrow> Inr [parentNode])"
| "nextLevel sum64 (leftNode # rightNode # rest) =
     (case parentOf sum64 leftNode rightNode of
        Inl err \<Rightarrow> Inl err
      | Inr parentNode \<Rightarrow>
          (case nextLevel sum64 rest of
             Inl err \<Rightarrow> Inl err
           | Inr parents \<Rightarrow> Inr (parentNode # parents)))"

lemma nextLevel_length:
  "nextLevel sum64 level = Inr parents \<Longrightarrow> length parents = (length level + 1) div 2"
  by (induction sum64 level arbitrary: parents rule: nextLevel.induct)
     (auto split: sum.splits)

text \<open>The outer loop: collapse the level until one node remains.\<close>

function buildLoop :: "hasher \<Rightarrow> Node list \<Rightarrow> error + Node list" where
  "buildLoop sum64 currentLevel =
     (if length currentLevel > 1 then
        (case nextLevel sum64 currentLevel of
           Inl err \<Rightarrow> Inl err
         | Inr parents \<Rightarrow> buildLoop sum64 parents)
      else Inr currentLevel)"
  by pat_completeness auto
termination
proof (relation "measure (\<lambda>(sum64, level). length level)")
  show "wf (measure (\<lambda>(sum64 :: hasher, level :: Node list). length level))"
    by simp
next
  fix sum64 :: hasher and currentLevel parents :: "Node list"
  assume "1 < length currentLevel" and "nextLevel sum64 currentLevel = Inr parents"
  then show "((sum64, parents), (sum64, currentLevel))
      \<in> measure (\<lambda>(sum64, level). length level)"
    using nextLevel_length [of sum64 currentLevel parents] by simp
qed

declare buildLoop.simps [simp del]

definition Build :: "hasher \<Rightarrow> FileData gomap \<Rightarrow> string \<Rightarrow> error + MerkleTree" where
  "Build sum64 files rootPath =
     (if length files = 0 then
        (case XXHashFunc sum64 (bytes_of ''empty-tree'') of
           Inl err \<Rightarrow> Inl (Wrapped ''failed to create empty tree hash'' err)
         | Inr rootHash \<Rightarrow>
             Inr \<lparr>Root = Some (Node (EncodeToString rootHash) None None [] 0 0),
                  RootPath = rootPath, TotalSize = 0, Files = []\<rparr>)
      else
        (let paths = sort (map fst files);
             totalSize = foldl (\<lambda>total (path, fileData). total + Size fileData) 0 files;
             cleanRoot = Clean rootPath;
             currentLevel = map (leafNode files cleanRoot) paths
         in case buildLoop sum64 currentLevel of
              Inl err \<Rightarrow> Inl err
            | Inr [] \<Rightarrow> Inl IndexOutOfRange
            | Inr (root # rest) \<Rightarrow>
                Inr \<lparr>Root = Some root, RootPath = rootPath,
                     TotalSize = totalSize, Files = files\<rparr>))"

text \<open>The hash of the root of a build, when there is one.\<close>

definition rootHash :: "error + MerkleTree \<Rightarrow> string option" where
  "rootHash r =
     (case r of
        Inl err \<Rightarrow> None
      | Inr t \<Rightarrow> (case Root t of None \<Rightarrow> None | Some n \<Rightarrow> Some (Node_Hash n)))"

text \<open>The sentinel of the empty tree: the digest of the marker \<open>"empty-tree"\<close>, in hex.\<close>

definition emptyTreeHash :: "hasher \<Rightarrow> string" where
  "emptyTreeHash sum64 = EncodeToString (PutUint64 (sum64 (bytes_of ''empty-tree'')))"

(*THEOREMS*)

section \<open>The empty build\<close>

text \<open>
  C7: \<open>Build\<close> of an empty files mapping succeeds and returns a tree whose root is a
  single leaf (no children, no path, size and mtime zero) whose hash is the sentinel
  digest of the constant marker; the total size is zero and the files map is empty. The
  root hash is the same for every root path, so every empty build yields it.
\<close>

theorem Build_empty:
  "Build sum64 [] rootPath =
     Inr \<lparr>Root = Some (Node (emptyTreeHash sum64) None None [] 0 0),
          RootPath = rootPath, TotalSize = 0, Files = []\<rparr>
   \<and> rootHash (Build sum64 [] rootPath) = Some (emptyTreeHash sum64)
   \<and> rootHash (Build sum64 [] rootPath) = rootHash (Build sum64 [] rootPath')"
  by (simp add: Build_def XXHashFunc_def emptyTreeHash_def rootHash_def)

end
